theory Spec2Isabelle
  imports Main "HOL-Library.Word"
begin

section \<open>Python values\<close>

text \<open>
  A Python \<^verbatim>\<open>str\<close> is a sequence of Unicode code points, and \<^verbatim>\<open>len\<close> and slicing count
  code points (an emoji is one or a few of them, not its UTF-8 bytes). A string is
  therefore modelled as a list of code points, each a natural number; \<open>str\<close> turns an
  ASCII literal into such a list. \<^verbatim>\<open>bytes\<close> is a list of 8-bit words.
\<close>

type_synonym pystr = "nat list"

type_synonym bytes = "8 word list"

definition str :: "string \<Rightarrow> pystr" where
  "str s = map of_char s"

text \<open>
  What \<^verbatim>\<open>response.json()\<close> and \<^verbatim>\<open>json.loads\<close> return: \<^verbatim>\<open>None\<close>, a bool, an unbounded int,
  a float (kept as its 64 bits), a str, a list, or a dict with string keys (an
  association list in insertion order).
\<close>

datatype json =
    JNull
  | JBool bool
  | JInt int
  | JFloat "64 word"
  | JStr pystr
  | JList "json list"
  | JDict "(pystr \<times> json) list"

text \<open>
  Python's truth value, as \<^verbatim>\<open>if x:\<close> and \<^verbatim>\<open>not x\<close> test it: \<^verbatim>\<open>None\<close>, \<^verbatim>\<open>False\<close>, zero, and
  the empty string, list and dict are false. A float is zero when all bits but the
  sign are.
\<close>

fun truthy :: "json \<Rightarrow> bool" where
  "truthy JNull = False"
| "truthy (JBool b) = b"
| "truthy (JInt n) = (n \<noteq> 0)"
| "truthy (JFloat w) = (take_bit 63 w \<noteq> 0)"
| "truthy (JStr s) = (s \<noteq> [])"
| "truthy (JList xs) = (xs \<noteq> [])"
| "truthy (JDict kvs) = (kvs \<noteq> [])"

text \<open>
  The exceptions the program can meet. \<open>RequestError\<close> stands for whatever
  \<^verbatim>\<open>requests.get\<close> or \<^verbatim>\<open>.json()\<close> raises, \<open>GzipError\<close>, \<open>JSONError\<close> and \<open>ImageError\<close> for
  what \<^verbatim>\<open>gzip.decompress\<close>, \<^verbatim>\<open>json.loads\<close> and PIL raise.
\<close>

datatype exn =
    KeyError
  | TypeError
  | AttributeError
  | ValueError
  | OSError
  | RequestError
  | GzipError
  | JSONError
  | ImageError

text \<open>\<^verbatim>\<open>d.get(k, default)\<close>: only a dict has the method.\<close>

fun dict_get :: "json \<Rightarrow> pystr \<Rightarrow> json \<Rightarrow> exn + json" where
  "dict_get (JDict kvs) k dflt = Inr (case map_of kvs k of None \<Rightarrow> dflt | Some v \<Rightarrow> v)"
| "dict_get _ k dflt = Inl AttributeError"

text \<open>\<^verbatim>\<open>d[k]\<close> with a string key: \<^verbatim>\<open>KeyError\<close> on a dict without the key, \<^verbatim>\<open>TypeError\<close>
  on every other value.\<close>

fun subscript :: "json \<Rightarrow> pystr \<Rightarrow> exn + json" where
  "subscript (JDict kvs) k = (case map_of kvs k of None \<Rightarrow> Inl KeyError | Some v \<Rightarrow> Inr v)"
| "subscript _ k = Inl TypeError"

text \<open>\<^verbatim>\<open>len(x)\<close> and the items a \<^verbatim>\<open>for\<close> loop over \<^verbatim>\<open>x\<close> visits: a list gives its elements,
  a str its characters, a dict its keys; the other values raise \<^verbatim>\<open>TypeError\<close>.\<close>

fun py_iter :: "json \<Rightarrow> exn + json list" where
  "py_iter (JList xs) = Inr xs"
| "py_iter (JStr s) = Inr (map (\<lambda>c. JStr [c]) s)"
| "py_iter (JDict kvs) = Inr (map (\<lambda>kv. JStr (fst kv)) kvs)"
| "py_iter _ = Inl TypeError"

definition py_len :: "json \<Rightarrow> exn + nat" where
  "py_len x = (case py_iter x of Inl e \<Rightarrow> Inl e | Inr xs \<Rightarrow> Inr (length xs))"

section \<open>String operations\<close>

text \<open>\<^verbatim>\<open>s.split(sep)\<close> for a one-character separator: never the empty list.\<close>

fun split_str :: "nat \<Rightarrow> pystr \<Rightarrow> pystr list" where
  "split_str sep [] = [[]]"
| "split_str sep (c # cs) =
     (if c = sep then [] # split_str sep cs
      else (case split_str sep cs of [] \<Rightarrow> [[c]] | seg # segs \<Rightarrow> (c # seg) # segs))"

text \<open>\<^verbatim>\<open>s.replace(a, b)\<close> for one-character \<open>a\<close> and \<open>b\<close>.\<close>

definition replace_char :: "nat \<Rightarrow> nat \<Rightarrow> pystr \<Rightarrow> pystr" where
  "replace_char a b s = map (\<lambda>c. if c = a then b else c) s"

text \<open>The code points \<^verbatim>\<open>str.strip()\<close> removes (Python's Unicode whitespace).\<close>

definition py_isspace :: "nat \<Rightarrow> bool" where
  "py_isspace c \<longleftrightarrow>
     (9 \<le> c \<and> c \<le> 13) \<or> (28 \<le> c \<and> c \<le> 32) \<or> c = 133 \<or> c = 160 \<or> c = 5760 \<or>
     (8192 \<le> c \<and> c \<le> 8202) \<or> c = 8232 \<or> c = 8233 \<or> c = 8239 \<or> c = 8287 \<or> c = 12288"

definition strip :: "pystr \<Rightarrow> pystr" where
  "strip s = rev (dropWhile py_isspace (rev (dropWhile py_isspace s)))"

text \<open>\<^verbatim>\<open>upper()\<close> and \<^verbatim>\<open>lower()\<close>, on the ASCII letters; the program applies them to the
  format name only, which it accepts when it is WEBP, PNG or JPEG in any letter case.\<close>

definition py_upper :: "pystr \<Rightarrow> pystr" where
  "py_upper s = map (\<lambda>c. if 97 \<le> c \<and> c \<le> 122 then c - 32 else c) s"

definition py_lower :: "pystr \<Rightarrow> pystr" where
  "py_lower s = map (\<lambda>c. if 65 \<le> c \<and> c \<le> 90 then c + 32 else c) s"

definition endswith :: "pystr \<Rightarrow> pystr \<Rightarrow> bool" where
  "endswith s suf \<longleftrightarrow> length suf \<le> length s \<and> drop (length s - length suf) s = suf"

text \<open>\<^verbatim>\<open>str(n)\<close> of a natural number, and the format \<^verbatim>\<open>{n:03d}\<close>: decimal, padded with
  zeros to three digits, longer when the number needs it.\<close>

fun dec :: "nat \<Rightarrow> pystr" where
  "dec n = (if n < 10 then [48 + n] else dec (n div 10) @ [48 + n mod 10])"

declare dec.simps [simp del]

definition fmt_03d :: "nat \<Rightarrow> pystr" where
  "fmt_03d n = replicate (3 - length (dec n)) 48 @ dec n"

text \<open>\<^verbatim>\<open>os.path.join(a, b)\<close> (POSIX): an absolute \<open>b\<close> replaces \<open>a\<close>.\<close>

definition path_join :: "pystr \<Rightarrow> pystr \<Rightarrow> pystr" where
  "path_join a b =
     (if b \<noteq> [] \<and> hd b = 47 then b
      else if a = [] \<or> last a = 47 then a @ b
      else a @ [47] @ b)"

section \<open>The leaf functions\<close>

text \<open>The characters the regular expression \<^verbatim>\<open>[<>:"/\\|?*]\<close> matches:
  \<^verbatim>\<open><\<close> 60, \<^verbatim>\<open>>\<close> 62, \<^verbatim>\<open>:\<close> 58, the double quote 34, \<^verbatim>\<open>/\<close> 47, the backslash 92, \<^verbatim>\<open>|\<close> 124,
  \<^verbatim>\<open>?\<close> 63 and \<^verbatim>\<open>*\<close> 42.\<close>

definition illegal_chars :: "nat list" where
  "illegal_chars = [60, 62, 58, 34, 47, 92, 124, 63, 42]"

definition sanitize_filename :: "pystr \<Rightarrow> pystr" where
  "sanitize_filename name =
     (let name1 = filter (\<lambda>c. c \<notin> set illegal_chars) name;
          name2 = replace_char 13 32 (replace_char 10 32 name1)
      in take 50 (strip name2))"

text \<open>
  The libraries the program calls, as parameters of the model: what they compute is
  not the repository's code. \<open>None\<close> is the call raising.
  \<^item> \<open>urlparse_path\<close>: \<^verbatim>\<open>urlparse(url).path\<close> (\<^verbatim>\<open>ValueError\<close> on a malformed URL);
  \<^item> \<open>gzip_decompress\<close>, \<open>json_loads\<close>: \<^verbatim>\<open>gzip.decompress\<close>, \<^verbatim>\<open>json.loads\<close>;
  \<^item> \<open>json_dumps\<close>: \<^verbatim>\<open>json.dumps(doc, indent=2)\<close>, and \<open>encode_utf8\<close> its \<^verbatim>\<open>.encode('utf-8')\<close>;
  \<^item> \<open>Image_open\<close>, \<open>Image_convert_RGB\<close>, \<open>Image_save\<close>: PIL's \<^verbatim>\<open>Image.open\<close>,
    \<^verbatim>\<open>image.convert('RGB')\<close> and \<^verbatim>\<open>image.save(output, format=...)\<close>.
\<close>

record 'img library =
  urlparse_path :: "pystr \<Rightarrow> pystr option"
  gzip_decompress :: "bytes \<Rightarrow> bytes option"
  json_loads :: "bytes \<Rightarrow> json option"
  json_dumps :: "json \<Rightarrow> pystr"
  encode_utf8 :: "pystr \<Rightarrow> bytes"
  Image_open :: "bytes \<Rightarrow> 'img option"
  Image_convert_RGB :: "'img \<Rightarrow> 'img option"
  Image_save :: "'img \<Rightarrow> pystr \<Rightarrow> bytes option"

text \<open>
  A printed or written line is the f-string it came from: literal text, a value
  interpolated with \<^verbatim>\<open>{...}\<close> (its \<^verbatim>\<open>str()\<close> is not modelled), or an exception's text.
\<close>

datatype frag = Lit pystr | Val json | Exc exn

type_synonym line = "frag list"

text \<open>\<^verbatim>\<open>extract_pack_name\<close>: the last path segment when \<^verbatim>\<open>addstickers\<close> is one of the
  segments, else \<^verbatim>\<open>None\<close>.\<close>

definition extract_pack_name :: "'img library \<Rightarrow> pystr \<Rightarrow> exn + pystr option" where
  "extract_pack_name lib url =
     (case urlparse_path lib url of
        None \<Rightarrow> Inl ValueError
      | Some path \<Rightarrow>
          (let path_parts = split_str 47 path
           in if str ''addstickers'' \<in> set path_parts then Inr (Some (last path_parts))
              else Inr None))"

text \<open>\<^verbatim>\<open>convert_tgs_to_lottie\<close>: the printed lines and the returned value, \<^verbatim>\<open>None\<close> when
  decompressing or parsing raised.\<close>

definition convert_tgs_to_lottie :: "'img library \<Rightarrow> bytes \<Rightarrow> line list \<times> json" where
  "convert_tgs_to_lottie lib tgs_data =
     (case gzip_decompress lib tgs_data of
        None \<Rightarrow> ([[Lit (str ''Error converting TGS to Lottie: ''), Exc GzipError]], JNull)
      | Some json_data \<Rightarrow>
          (case json_loads lib json_data of
             None \<Rightarrow> ([[Lit (str ''Error converting TGS to Lottie: ''), Exc JSONError]], JNull)
           | Some doc \<Rightarrow> ([], doc)))"

text \<open>\<^verbatim>\<open>convert_webp_to_format\<close>: the printed lines and the returned bytes, \<open>None\<close> when
  PIL raised.\<close>

definition convert_webp_to_format ::
  "'img library \<Rightarrow> bytes \<Rightarrow> pystr \<Rightarrow> line list \<times> bytes option" where
  "convert_webp_to_format lib webp_data format_type =
     (let failed = ([[Lit (str ''Error converting WebP to ''), Lit format_type, Lit (str '': ''),
                      Exc ImageError]], None)
      in case Image_open lib webp_data of
           None \<Rightarrow> failed
         | Some img \<Rightarrow>
             (case (if format_type = str ''JPEG'' then Image_convert_RGB lib img else Some img) of
                None \<Rightarrow> failed
              | Some img_rgb \<Rightarrow>
                  (case Image_save lib img_rgb format_type of
                     None \<Rightarrow> failed
                   | Some output \<Rightarrow> ([], Some output))))"

section \<open>The world and the effects of a run\<close>

text \<open>
  What the run meets outside the program: the environment variable, the three remote
  endpoints and the file system. Every iteration of the download loop makes one
  \<^verbatim>\<open>getFile\<close> request and at most one download request, so the replies are indexed by
  the iteration (from 0) and the value sent. A reply \<open>Inl e\<close> is the request, or the
  decoding of its body as JSON, raising. A download's reply is its status code and
  its content. \<open>makedirs_fails\<close> and \<open>open_fails\<close> say for which paths \<^verbatim>\<open>os.makedirs\<close> and
  \<^verbatim>\<open>open\<close> for writing raise \<^verbatim>\<open>OSError\<close>.
\<close>

record world =
  TOKEN :: "pystr option"
  getStickerSet :: "pystr \<Rightarrow> exn + json"
  getFile :: "nat \<Rightarrow> json \<Rightarrow> exn + json"
  get_download :: "nat \<Rightarrow> json \<Rightarrow> exn + int \<times> bytes"
  makedirs_fails :: "pystr \<Rightarrow> bool"
  open_fails :: "pystr \<Rightarrow> bool"

text \<open>The arguments of \<^verbatim>\<open>download_sticker_pack\<close>.\<close>

record params =
  pack_url :: pystr
  convert_tgs :: bool
  static_format :: pystr
  base_dir :: pystr

text \<open>
  What a run leaves behind, in the order it happened: the lines printed, the
  directories created and the files written (the manifest as text, a sticker as
  bytes). A file is written whole or not at all.
\<close>

datatype content = Bytes bytes | Text "line list"

record effects =
  stdout :: "line list"
  made_dirs :: "pystr list"
  written :: "(pystr \<times> content) list"

definition no_effects :: effects where
  "no_effects = \<lparr>stdout = [], made_dirs = [], written = []\<rparr>"

definition print_line :: "line \<Rightarrow> effects \<Rightarrow> effects" where
  "print_line l eff = eff\<lparr>stdout := stdout eff @ [l]\<rparr>"

definition print_lines :: "line list \<Rightarrow> effects \<Rightarrow> effects" where
  "print_lines ls eff = eff\<lparr>stdout := stdout eff @ ls\<rparr>"

definition write_file :: "pystr \<Rightarrow> content \<Rightarrow> effects \<Rightarrow> effects" where
  "write_file path c eff = eff\<lparr>written := written eff @ [(path, c)]\<rparr>"

text \<open>
  How \<^verbatim>\<open>download_sticker_pack\<close> ends: \<^verbatim>\<open>sys.exit(n)\<close>; an exception nothing catches (raised
  before the \<^verbatim>\<open>try\<close>); the \<^verbatim>\<open>return\<close> of line 88 after a reply that is not ok; the handler
  of line 176 catching an exception; or the end of the loop. After the last three the
  function returns, \<^verbatim>\<open>main\<close> returns and the process ends with status 0.
\<close>

datatype ending =
    SysExit int
  | Uncaught exn
  | ReturnedNotOk
  | Caught exn
  | Completed

fun exit_status :: "ending \<Rightarrow> int" where
  "exit_status (SysExit n) = n"
| "exit_status (Uncaught e) = 1"
| "exit_status ReturnedNotOk = 0"
| "exit_status (Caught e) = 0"
| "exit_status Completed = 0"

section \<open>The pipeline\<close>

text \<open>
  Lines 137 to 163: the extension and the bytes to save for a downloaded payload,
  and the lines the converters printed. A sticker is animated when the resolved
  file path ends in \<^verbatim>\<open>.tgs\<close>. The converters' results are tested for truth
  (\<^verbatim>\<open>if lottie_data:\<close>, \<^verbatim>\<open>if converted_data:\<close>).
\<close>

definition handle_conversion ::
  "'img library \<Rightarrow> params \<Rightarrow> pystr \<Rightarrow> bytes \<Rightarrow> line list \<times> pystr \<times> bytes" where
  "handle_conversion lib p file_path sticker_data =
     (if endswith file_path (str ''.tgs'') then
        (if convert_tgs p then
           (case convert_tgs_to_lottie lib sticker_data of
              (msgs, lottie_data) \<Rightarrow>
                if truthy lottie_data
                then (msgs, str ''.json'', encode_utf8 lib (json_dumps lib lottie_data))
                else (msgs, str ''.tgs'', sticker_data))
         else ([], str ''.tgs'', sticker_data))
      else
        (if py_upper (static_format p) \<noteq> str ''WEBP'' then
           (case convert_webp_to_format lib sticker_data (static_format p) of
              (msgs, Some converted_data) \<Rightarrow>
                if converted_data \<noteq> []
                then (msgs, 46 # py_lower (static_format p), converted_data)
                else (msgs, str ''.webp'', sticker_data)
            | (msgs, None) \<Rightarrow> (msgs, str ''.webp'', sticker_data))
         else ([], str ''.webp'', sticker_data)))"

text \<open>
  Lines 166 and 167: the file name of the sticker of iteration \<open>i\<close> (from 0) with the
  value \<open>emoji\<close> of \<^verbatim>\<open>sticker.get('emoji', '')\<close>. \<^verbatim>\<open>sanitize_filename\<close> raises \<^verbatim>\<open>TypeError\<close> on
  a value that is not a string.
\<close>

definition sticker_filename :: "nat \<Rightarrow> json \<Rightarrow> pystr \<Rightarrow> exn + pystr" where
  "sticker_filename i emoji extension =
     (let emoji_str = (if truthy emoji then emoji else JStr (str ''sticker''))
      in case emoji_str of
           JStr s \<Rightarrow> Inr (fmt_03d (i + 1) @ [95] @ sanitize_filename s @ extension)
         | _ \<Rightarrow> Inl TypeError)"

text \<open>
  One iteration of the loop (lines 115 to 172) ends in one of three ways: with
  \<^verbatim>\<open>continue\<close> after a failed request, with the file saved, or with an exception that
  leaves the loop. Before that it may have printed lines.
\<close>

datatype sticker_outcome = Skip | Saved pystr bytes | Raise exn

definition on_value ::
  "exn + 'a \<Rightarrow> ('a \<Rightarrow> line list \<times> sticker_outcome) \<Rightarrow> line list \<times> sticker_outcome" where
  "on_value r k = (case r of Inl e \<Rightarrow> ([], Raise e) | Inr v \<Rightarrow> k v)"

text \<open>Lines 136 to 172: convert the downloaded payload, compose the file name and
  save the file.\<close>

definition save_sticker ::
  "world \<Rightarrow> 'img library \<Rightarrow> params \<Rightarrow> pystr \<Rightarrow> nat \<Rightarrow> json \<Rightarrow> json \<Rightarrow> bytes \<Rightarrow>
   line list \<times> sticker_outcome" where
  "save_sticker w lib p pack_dir i emoji file_path sticker_data =
     (case file_path of
        JStr fp \<Rightarrow>
          (case handle_conversion lib p fp sticker_data of
             (msgs, extension, sticker_content) \<Rightarrow>
               (case sticker_filename i emoji extension of
                  Inl e \<Rightarrow> (msgs, Raise e)
                | Inr filename \<Rightarrow>
                    (let output_path = path_join pack_dir filename
                     in if open_fails w output_path then (msgs, Raise OSError)
                        else (msgs, Saved output_path sticker_content))))
      | _ \<Rightarrow> ([], Raise AttributeError))"

text \<open>Lines 115 to 172: the two requests, then \<open>save_sticker\<close>.\<close>

definition process_sticker ::
  "world \<Rightarrow> 'img library \<Rightarrow> params \<Rightarrow> pystr \<Rightarrow> nat \<Rightarrow> json \<Rightarrow> line list \<times> sticker_outcome" where
  "process_sticker w lib p pack_dir i sticker =
     on_value (subscript sticker (str ''file_id'')) (\<lambda>file_id.
     on_value (dict_get sticker (str ''emoji'') (JStr [])) (\<lambda>emoji.
     on_value (getFile w i file_id) (\<lambda>file_data.
     on_value (dict_get file_data (str ''ok'') JNull) (\<lambda>ok.
       if \<not> truthy ok
       then ([[Lit (str ''Failed to get file path for sticker '' @ dec (i + 1))]], Skip)
       else
     on_value (subscript file_data (str ''result'')) (\<lambda>result.
     on_value (subscript result (str ''file_path'')) (\<lambda>file_path.
     on_value (get_download w i file_path) (\<lambda>(status_code, sticker_data).
       if status_code \<noteq> 200
       then ([[Lit (str ''Failed to download sticker '' @ dec (i + 1))]], Skip)
       else save_sticker w lib p pack_dir i emoji file_path sticker_data)))))))"

text \<open>
  The \<^verbatim>\<open>for\<close> loop of line 114 over the remaining stickers, \<open>i\<close> the index of the first of
  them: the exception that left the loop, if any, and the effects so far.
\<close>

fun download_loop ::
  "world \<Rightarrow> 'img library \<Rightarrow> params \<Rightarrow> pystr \<Rightarrow> nat \<Rightarrow> json list \<Rightarrow> effects \<Rightarrow> exn option \<times> effects" where
  "download_loop w lib p pack_dir i [] eff = (None, eff)"
| "download_loop w lib p pack_dir i (sticker # rest) eff =
     (case process_sticker w lib p pack_dir i sticker of
        (msgs, Raise e) \<Rightarrow> (Some e, print_lines msgs eff)
      | (msgs, Skip) \<Rightarrow> download_loop w lib p pack_dir (i + 1) rest (print_lines msgs eff)
      | (msgs, Saved output_path sticker_content) \<Rightarrow>
          download_loop w lib p pack_dir (i + 1) rest
            (write_file output_path (Bytes sticker_content) (print_lines msgs eff)))"

text \<open>The lines of \<^verbatim>\<open>pack_info.txt\<close> (lines 105 to 111).\<close>

definition manifest :: "params \<Rightarrow> (pystr \<times> json) list \<Rightarrow> pystr \<Rightarrow> nat \<Rightarrow> line list" where
  "manifest p pack_info pack_title n =
     [[Lit (str ''Pack Name: ''), Lit pack_title],
      [Lit (str ''Sticker Count: ''), Lit (dec n)],
      [Lit (str ''Original URL: ''), Lit (pack_url p)]] @
     (case map_of pack_info (str ''author'') of
        None \<Rightarrow> []
      | Some author \<Rightarrow> [[Lit (str ''Author: ''), Val author]]) @
     [[Lit (str ''Static stickers format: ''), Lit (static_format p)],
      [Lit (str ''Animated stickers saved as: ''),
       Lit (if convert_tgs p then str ''Lottie JSON'' else str ''TGS'')]]"

text \<open>
  Lines 82 to 111, inside the \<^verbatim>\<open>try\<close>: fetch the metadata, create the pack directory and
  write the manifest. \<open>Inl\<close> is the run ending here, \<open>Inr\<close> the pack directory, the
  stickers to iterate over and the effects so far.
\<close>

definition or_caught ::
  "effects \<Rightarrow> exn + 'a \<Rightarrow> ('a \<Rightarrow> ending \<times> effects + 'b) \<Rightarrow> ending \<times> effects + 'b" where
  "or_caught eff r k = (case r of Inl e \<Rightarrow> Inl (Caught e, eff) | Inr v \<Rightarrow> k v)"

definition fetch_and_prepare ::
  "world \<Rightarrow> params \<Rightarrow> pystr \<Rightarrow> effects \<Rightarrow> ending \<times> effects + pystr \<times> json list \<times> effects" where
  "fetch_and_prepare w p pack_name eff =
     or_caught eff (getStickerSet w pack_name) (\<lambda>data.
     or_caught eff (dict_get data (str ''ok'') JNull) (\<lambda>ok.
       if \<not> truthy ok then
         or_caught eff (dict_get data (str ''description'') (JStr (str ''Unknown error'')))
           (\<lambda>description.
              Inl (ReturnedNotOk, print_line [Lit (str ''Error: ''), Val description] eff))
       else
     or_caught eff (subscript data (str ''result'')) (\<lambda>pack_info.
     or_caught eff (subscript pack_info (str ''stickers'')) (\<lambda>stickers.
     or_caught eff (dict_get pack_info (str ''title'') (JStr pack_name)) (\<lambda>pack_title.
       (case (pack_title, pack_info) of
          (JStr title, JDict info) \<Rightarrow>
            (let pack_dir_name = sanitize_filename title @ str '' ('' @ pack_name @ str '')'';
                 pack_dir = path_join (base_dir p) pack_dir_name
             in if makedirs_fails w pack_dir then Inl (Caught OSError, eff)
                else
                  (let eff1 = eff\<lparr>made_dirs := made_dirs eff @ [pack_dir]\<rparr>
                   in or_caught eff1 (py_len stickers) (\<lambda>n.
                      (let eff2 = print_line
                             [Lit (10 # str ''Found ''), Lit (dec n),
                              Lit (str '' stickers in pack: ''), Lit title] eff1;
                           pack_info_path = path_join pack_dir (str ''pack_info.txt'')
                       in if open_fails w pack_info_path then Inl (Caught OSError, eff2)
                          else
                            or_caught eff2 (py_iter stickers) (\<lambda>items.
                              Inr (pack_dir, items,
                                   write_file pack_info_path
                                     (Text (manifest p info title n)) eff2))))))
        | _ \<Rightarrow> Inl (Caught TypeError, eff)))))))"

text \<open>
  \<^verbatim>\<open>download_sticker_pack\<close>. The checks before the \<^verbatim>\<open>try\<close> end the process with
  \<^verbatim>\<open>sys.exit(1)\<close>; the handler of the \<^verbatim>\<open>try\<close> prints the exception and lets the function
  return.
\<close>

definition missing_token_lines :: "line list" where
  "missing_token_lines =
     [[Lit (str ''Error: TELEGRAM_BOT_TOKEN not found in .env file'')],
      [Lit (str ''Please create a .env file with your bot token. See README.md for instructions.'')]]"

definition invalid_format_lines :: "line list" where
  "invalid_format_lines =
     [[Lit (str ''Error: Invalid static format. Must be one of: WEBP, PNG, JPEG'')]]"

definition invalid_url_lines :: "line list" where
  "invalid_url_lines =
     [[Lit (str ''Error: Invalid sticker pack URL'')],
      [Lit (str ''URL should be in format: https://t.me/addstickers/PackName'')]]"

definition valid_formats :: "pystr list" where
  "valid_formats = [str ''WEBP'', str ''PNG'', str ''JPEG'']"

text \<open>Lines 74 and 75: the pack name, \<open>None\<close> when \<^verbatim>\<open>not pack_name\<close> holds (no name, or the
  empty one).\<close>

definition checked_pack_name :: "'img library \<Rightarrow> pystr \<Rightarrow> exn + pystr option" where
  "checked_pack_name lib url =
     (case extract_pack_name lib url of
        Inl e \<Rightarrow> Inl e
      | Inr None \<Rightarrow> Inr None
      | Inr (Some pack_name) \<Rightarrow> if pack_name = [] then Inr None else Inr (Some pack_name))"

definition handler :: "exn \<Rightarrow> effects \<Rightarrow> ending \<times> effects" where
  "handler e eff = (Caught e, print_line [Lit (str ''Error: ''), Exc e] eff)"

definition download_sticker_pack :: "world \<Rightarrow> 'img library \<Rightarrow> params \<Rightarrow> ending \<times> effects" where
  "download_sticker_pack w lib p =
     (if TOKEN w = None \<or> TOKEN w = Some [] then
        (SysExit 1, print_lines missing_token_lines no_effects)
      else if py_upper (static_format p) \<notin> set valid_formats then
        (SysExit 1, print_lines invalid_format_lines no_effects)
      else
        (case checked_pack_name lib (pack_url p) of
           Inl e \<Rightarrow> (Uncaught e, no_effects)
         | Inr None \<Rightarrow> (SysExit 1, print_lines invalid_url_lines no_effects)
         | Inr (Some pack_name) \<Rightarrow>
             (case fetch_and_prepare w p pack_name no_effects of
                Inl (Caught e, eff) \<Rightarrow> handler e eff
              | Inl (ended, eff) \<Rightarrow> (ended, eff)
              | Inr (pack_dir, stickers, eff) \<Rightarrow>
                  (case download_loop w lib p pack_dir 0 stickers eff of
                     (Some e, eff1) \<Rightarrow> handler e eff1
                   | (None, eff1) \<Rightarrow>
                       (Completed,
                        print_line
                          [Lit (10 # str ''Download complete! Stickers saved in: ''),
                           Lit pack_dir] eff1)))))"

section \<open>An instance for the examples\<close>

text \<open>
  The generic URL syntax \<^verbatim>\<open>scheme://netloc/path?query#fragment\<close> that \<^verbatim>\<open>urlparse\<close> reads: the
  path is what is left once the scheme, the network location, the fragment and the
  query are cut off. It stands for \<^verbatim>\<open>urlparse(url).path\<close> in the examples, whose URLs have
  this plain form (no parameters after a semicolon, no control characters, no
  brackets in the network location).
\<close>

definition scheme_char :: "nat \<Rightarrow> bool" where
  "scheme_char c \<longleftrightarrow>
     (97 \<le> c \<and> c \<le> 122) \<or> (65 \<le> c \<and> c \<le> 90) \<or> (48 \<le> c \<and> c \<le> 57) \<or> c = 43 \<or> c = 45 \<or> c = 46"

definition generic_url_path :: "pystr \<Rightarrow> pystr option" where
  "generic_url_path url =
     (let scheme = takeWhile (\<lambda>c. c \<noteq> 58) url;
          url1 = (if length scheme < length url \<and> scheme \<noteq> [] \<and> list_all scheme_char scheme \<and>
                     \<not> (48 \<le> hd scheme \<and> hd scheme \<le> 57) \<and> hd scheme \<notin> {43, 45, 46}
                  then drop (length scheme + 1) url else url);
          url2 = (if take 2 url1 = str ''//''
                  then dropWhile (\<lambda>c. c \<notin> {47, 63, 35}) (drop 2 url1) else url1);
          url3 = takeWhile (\<lambda>c. c \<noteq> 35) url2
      in Some (takeWhile (\<lambda>c. c \<noteq> 63) url3))"

text \<open>The gzip stream of the two bytes \<^verbatim>\<open>{}\<close>, the empty JSON object.\<close>

definition gz_empty_object :: bytes where
  "gz_empty_object =
     [31, 139, 8, 0, 0, 0, 0, 0, 2, 3, 171, 174, 5, 0, 67, 191, 166, 163, 2, 0, 0, 0]"

text \<open>
  A library for the examples. It decompresses the one gzip stream above, parses the
  one JSON text \<^verbatim>\<open>{}\<close>, and fails on every other input; its PIL decodes no image.
\<close>

definition example_library :: "unit library" where
  "example_library =
     \<lparr>urlparse_path = generic_url_path,
      gzip_decompress = (\<lambda>b. if b = gz_empty_object then Some [123, 125] else None),
      json_loads = (\<lambda>b. if b = [123, 125] then Some (JDict []) else None),
      json_dumps = (\<lambda>doc. str ''{}''),
      encode_utf8 = map of_nat,
      Image_open = (\<lambda>b. None),
      Image_convert_RGB = (\<lambda>img. None),
      Image_save = (\<lambda>img fmt. None)\<rparr>"

text \<open>
  A pack of three stickers, the first animated, the third without an emoji. The
  service knows the pack \<^verbatim>\<open>Foo\<close> only and answers every other name with an envelope that
  is not ok.
\<close>

definition example_stickers :: "json list" where
  "example_stickers =
     [JDict [(str ''file_id'', JStr (str ''a1'')), (str ''emoji'', JStr [128512])],
      JDict [(str ''file_id'', JStr (str ''a2'')), (str ''emoji'', JStr [128293])],
      JDict [(str ''file_id'', JStr (str ''a3''))]]"

definition example_pack :: json where
  "example_pack =
     JDict [(str ''ok'', JBool True),
            (str ''result'',
             JDict [(str ''name'', JStr (str ''Foo'')),
                    (str ''title'', JStr (str ''My Pack'')),
                    (str ''stickers'', JList example_stickers)])]"

definition not_found_reply :: json where
  "not_found_reply =
     JDict [(str ''ok'', JBool False), (str ''error_code'', JInt 400),
            (str ''description'', JStr (str ''Bad Request: STICKERSET_INVALID''))]"

definition file_reply :: "pystr \<Rightarrow> json" where
  "file_reply path =
     JDict [(str ''ok'', JBool True), (str ''result'', JDict [(str ''file_path'', JStr path)])]"

definition example_world :: world where
  "example_world =
     \<lparr>TOKEN = Some (str ''123:abc''),
      getStickerSet = (\<lambda>name. if name = str ''Foo'' then Inr example_pack else Inr not_found_reply),
      getFile = (\<lambda>i file_id.
        if file_id = JStr (str ''a1'') then Inr (file_reply (str ''stickers/file_1.tgs''))
        else if file_id = JStr (str ''a2'') then Inr (file_reply (str ''stickers/file_2.webp''))
        else if file_id = JStr (str ''a3'') then Inr (file_reply (str ''stickers/file_3.webp''))
        else Inr not_found_reply),
      get_download = (\<lambda>i file_path.
        if file_path = JStr (str ''stickers/file_1.tgs'') then Inr (200, [1, 2, 3])
        else if file_path = JStr (str ''stickers/file_2.webp'') then Inr (200, [82, 73, 70, 70])
        else if file_path = JStr (str ''stickers/file_3.webp'') then Inr (200, [82, 73, 70, 70, 0])
        else Inr (404, [])),
      makedirs_fails = (\<lambda>path. False),
      open_fails = (\<lambda>path. False)\<rparr>"

definition example_params :: params where
  "example_params =
     \<lparr>pack_url = str ''https://t.me/addstickers/Foo'', convert_tgs = True,
      static_format = str ''WEBP'', base_dir = str ''downloads''\<rparr>"

text \<open>Three variations: the download of the second sticker answers 404; files ending
  in \<^verbatim>\<open>.tgs\<close> cannot be opened for writing; the URL names a pack the service does not
  know.\<close>

definition download_failure_world :: world where
  "download_failure_world =
     example_world\<lparr>get_download :=
       (\<lambda>i file_path. if i = 1 then Inr (404, []) else get_download example_world i file_path)\<rparr>"

definition write_failure_world :: world where
  "write_failure_world = example_world\<lparr>open_fails := (\<lambda>path. endswith path (str ''.tgs''))\<rparr>"

definition unknown_pack_params :: params where
  "unknown_pack_params = example_params\<lparr>pack_url := str ''https://t.me/addstickers/Nope''\<rparr>"

definition example_pack_dir :: pystr where
  "example_pack_dir = str ''downloads/My Pack (Foo)''"

text \<open>The effects of the example run once the manifest is written.\<close>

definition example_prepared :: effects where
  "example_prepared =
       \<lparr>stdout = [[Lit (10 # str ''Found ''), Lit (str ''3''),
                    Lit (str '' stickers in pack: ''), Lit (str ''My Pack'')]],
        made_dirs = [example_pack_dir],
        written = [(str ''downloads/My Pack (Foo)/pack_info.txt'',
                    Text (manifest example_params
                      [(str ''name'', JStr (str ''Foo'')), (str ''title'', JStr (str ''My Pack'')),
                       (str ''stickers'', JList example_stickers)] (str ''My Pack'') 3))]\<rparr>"

section \<open>Lemmas on strings, numbers and paths\<close>

lemma split_str_not_Nil: "split_str sep s \<noteq> []"
  by (induction s) (auto split: list.splits)

lemma endswith_append: "endswith (xs @ suf) suf"
  by (simp add: endswith_def)

lemma path_join_cases:
  "path_join a b = b \<or> path_join a b = a @ b \<or> path_join a b = a @ [47] @ b"
  by (simp add: path_join_def)

lemma endswith_path_join: "endswith (path_join a (xs @ suf)) suf"
proof -
  have "endswith (xs @ suf) suf" "endswith ((a @ xs) @ suf) suf" "endswith ((a @ [47] @ xs) @ suf) suf"
    by (rule endswith_append)+
  then show ?thesis
    using path_join_cases[of a "xs @ suf"] by auto
qed

lemma dec_digits: "c \<in> set (dec n) \<Longrightarrow> 48 \<le> c \<and> c \<le> 57"
proof (induction n arbitrary: c rule: dec.induct)
  case (1 n c)
  show ?case
  proof (cases "n < 10")
    case True
    with "1.prems" show ?thesis by (simp add: dec.simps[of n])
  next
    case False
    with "1.prems" have "c \<in> set (dec (n div 10)) \<or> c = 48 + n mod 10"
      by (auto simp: dec.simps[of n])
    with "1.IH"[OF False] show ?thesis by auto
  qed
qed

lemma dec_value: "foldl (\<lambda>a c. 10 * a + (c - 48)) 0 (dec n) = n"
proof (induction n rule: dec.induct)
  case (1 n)
  show ?case
  proof (cases "n < 10")
    case True
    then show ?thesis by (simp add: dec.simps[of n])
  next
    case False
    with "1.IH" show ?thesis by (simp add: dec.simps[of n])
  qed
qed

lemma fmt_03d_value: "foldl (\<lambda>a c. 10 * a + (c - 48)) 0 (fmt_03d n) = n"
proof -
  have "foldl (\<lambda>a c. 10 * a + (c - 48)) 0 (replicate k 48) = (0::nat)" for k
    by (induction k) simp_all
  then show ?thesis by (simp add: fmt_03d_def dec_value)
qed

lemma fmt_03d_inj: "fmt_03d m = fmt_03d n \<Longrightarrow> m = n"
  by (metis fmt_03d_value)

lemma fmt_03d_digits: "c \<in> set (fmt_03d n) \<Longrightarrow> 48 \<le> c \<and> c \<le> 57"
  by (auto simp: fmt_03d_def dest: dec_digits)

lemma dec_not_Nil: "dec n \<noteq> []"
  by (subst dec.simps) simp

lemma fmt_03d_not_Nil: "fmt_03d n \<noteq> []"
  by (simp add: fmt_03d_def dec_not_Nil)

lemma digits_prefix:
  "takeWhile (\<lambda>c. 48 \<le> c \<and> c \<le> 57) (fmt_03d n @ 95 # r) = fmt_03d n"
proof -
  have "takeWhile (\<lambda>c. 48 \<le> c \<and> c \<le> (57::nat)) (fmt_03d n @ 95 # r)
        = takeWhile (\<lambda>c. 48 \<le> c \<and> c \<le> 57) (fmt_03d n)"
    by (rule takeWhile_tail) simp
  also have "\<dots> = fmt_03d n"
    by (simp add: takeWhile_eq_all_conv fmt_03d_digits)
  finally show ?thesis .
qed

lemma numbered_inj: "fmt_03d m @ 95 # r = fmt_03d n @ 95 # r' \<Longrightarrow> m = n"
  by (metis digits_prefix fmt_03d_inj)

lemma hd_fmt_03d: "48 \<le> hd (fmt_03d n @ r) \<and> hd (fmt_03d n @ r) \<le> 57"
proof -
  have "hd (fmt_03d n @ r) = hd (fmt_03d n)" by (simp add: fmt_03d_not_Nil)
  moreover have "hd (fmt_03d n) \<in> set (fmt_03d n)" by (simp add: fmt_03d_not_Nil)
  ultimately show ?thesis using fmt_03d_digits by metis
qed

lemma path_join_relative:
  "b \<noteq> [] \<Longrightarrow> hd b \<noteq> 47 \<Longrightarrow>
   path_join a b = (if a = [] \<or> last a = 47 then a else a @ [47]) @ b"
  by (simp add: path_join_def)

lemma path_join_inj:
  assumes "b \<noteq> []" "hd b \<noteq> 47" "c \<noteq> []" "hd c \<noteq> 47" "path_join a b = path_join a c"
  shows "b = c"
  using assms by (simp add: path_join_relative)

lemma set_strip: "set (strip s) \<subseteq> set s"
proof -
  have "set (strip s) = set (dropWhile py_isspace (rev (dropWhile py_isspace s)))"
    by (simp add: strip_def)
  also have "\<dots> \<subseteq> set (rev (dropWhile py_isspace s))"
    by (rule set_dropWhileD[THEN subsetI]) 
  also have "\<dots> \<subseteq> set s"
    by (auto dest: set_dropWhileD)
  finally show ?thesis .
qed

lemma set_replace_char: "set (replace_char a b s) \<subseteq> insert b (set s - {a})"
  by (auto simp: replace_char_def)

lemma set_sanitize_filename:
  "set (sanitize_filename x) \<subseteq> insert 32 (set x - set illegal_chars - {10, 13})"
proof -
  let ?n1 = "filter (\<lambda>c. c \<notin> set illegal_chars) x"
  let ?n2 = "replace_char 13 32 (replace_char 10 32 ?n1)"
  have "set (sanitize_filename x) \<subseteq> set (strip ?n2)"
    by (simp add: sanitize_filename_def Let_def set_take_subset)
  also have "\<dots> \<subseteq> set ?n2" by (rule set_strip)
  also have "\<dots> \<subseteq> insert 32 (set x - set illegal_chars - {10, 13})"
    using set_replace_char[of 13 32 "replace_char 10 32 ?n1"] set_replace_char[of 10 32 ?n1]
    by auto
  finally show ?thesis .
qed

lemma strip_all_space:
  assumes "list_all py_isspace s"
  shows "strip s = []"
proof -
  have empty: "dropWhile py_isspace s = []"
    using assms by (simp add: list_all_iff dropWhile_eq_Nil_conv)
  show ?thesis unfolding strip_def empty by simp
qed

lemma sanitize_removed:
  assumes "\<forall>c\<in>set e. c \<in> set illegal_chars \<or> py_isspace c"
  shows "sanitize_filename e = []"
proof -
  let ?n1 = "filter (\<lambda>c. c \<notin> set illegal_chars) e"
  have sp: "py_isspace 32" by (simp add: py_isspace_def)
  have "list_all py_isspace ?n1" using assms by (auto simp: list_all_iff)
  then have "list_all py_isspace (replace_char 13 32 (replace_char 10 32 ?n1))"
    using sp by (auto simp: list_all_iff replace_char_def)
  then show ?thesis
    by (simp add: sanitize_filename_def Let_def strip_all_space)
qed

lemma sanitize_sticker: "sanitize_filename (str ''sticker'') = str ''sticker''"
  by code_simp

lemma sanitize_example:
  "sanitize_filename (str ''  a<b>:c/d e? '' @ [10, 13] @ replicate 60 120) = str ''abcd e   '' @ replicate 41 120"
  by code_simp

section \<open>Lemmas on saving a sticker\<close>

lemma sticker_filename_Inr:
  "sticker_filename i emoji ext = Inr name \<Longrightarrow>
   \<exists>s. (if truthy emoji then emoji else JStr (str ''sticker'')) = JStr s \<and>
       name = fmt_03d (i + 1) @ [95] @ sanitize_filename s @ ext"
  by (auto simp: sticker_filename_def Let_def split: json.splits if_splits)

lemma sticker_filename_endswith:
  assumes "sticker_filename i emoji ext = Inr name"
  shows "endswith (path_join d name) ext"
proof -
  from sticker_filename_Inr[OF assms] obtain s where
    "name = (fmt_03d (i + 1) @ [95] @ sanitize_filename s) @ ext" by auto
  then show ?thesis by (simp only: endswith_path_join)
qed

lemma save_sticker_Saved:
  assumes "save_sticker w lib p d i emoji file_path data = (msgs, Saved path content)"
  shows "\<exists>fp ext name. file_path = JStr fp \<and> handle_conversion lib p fp data = (msgs, ext, content) \<and>
           sticker_filename i emoji ext = Inr name \<and> path = path_join d name \<and> \<not> open_fails w path"
  using assms
  by (auto simp: save_sticker_def Let_def split: json.splits prod.splits sum.splits if_splits)

lemma truthy_document_converted:
  "endswith fp (str ''.tgs'') \<and> convert_tgs p \<and>
   gzip_decompress lib data = Some raw \<and> json_loads lib raw = Some doc \<and> truthy doc \<longrightarrow>
     handle_conversion lib p fp data = ([], str ''.json'', encode_utf8 lib (json_dumps lib doc))"
  by (simp add: handle_conversion_def convert_tgs_to_lottie_def)

section \<open>Lemmas on the loop\<close>

lemma process_sticker_Saved:
  assumes "process_sticker w lib p d i sticker = (msgs, Saved path content)"
  shows "\<exists>emoji file_path data.
           dict_get sticker (str ''emoji'') (JStr []) = Inr emoji \<and>
           save_sticker w lib p d i emoji file_path data = (msgs, Saved path content)"
  using assms
  by (auto simp: process_sticker_def on_value_def split: sum.splits if_splits prod.splits)

lemma process_sticker_named:
  assumes "process_sticker w lib p d i sticker = (msgs, Saved path content)"
  shows "\<exists>emoji s ext.
           dict_get sticker (str ''emoji'') (JStr []) = Inr emoji \<and>
           (if truthy emoji then emoji else JStr (str ''sticker'')) = JStr s \<and>
           path = path_join d (fmt_03d (i + 1) @ str ''_'' @ sanitize_filename s @ ext)"
proof -
  from process_sticker_Saved[OF assms] obtain emoji file_path data where
    e: "dict_get sticker (str ''emoji'') (JStr []) = Inr emoji" and
    s: "save_sticker w lib p d i emoji file_path data = (msgs, Saved path content)"
    by blast
  from save_sticker_Saved[OF s] obtain ext name where
    n: "sticker_filename i emoji ext = Inr name" and p: "path = path_join d name"
    by blast
  from sticker_filename_Inr[OF n] obtain s where
    "(if truthy emoji then emoji else JStr (str ''sticker'')) = JStr s"
    "name = fmt_03d (i + 1) @ [95] @ sanitize_filename s @ ext"
    by blast
  moreover have "str ''_'' = [95]" by (simp add: str_def)
  ultimately show ?thesis using e p by auto
qed

lemma process_sticker_open_fails:
  assumes "process_sticker (w\<lparr>open_fails := \<lambda>path. False\<rparr>) lib p d i sticker = (msgs, Saved path content)"
  shows "process_sticker w lib p d i sticker =
           (if open_fails w path then (msgs, Raise OSError) else (msgs, Saved path content))"
  using assms
  by (auto simp: process_sticker_def on_value_def save_sticker_def Let_def
      split: sum.splits if_splits prod.splits json.splits)

lemma download_loop_append:
  "download_loop w lib p d i (xs @ ys) eff =
     (case download_loop w lib p d i xs eff of
        (Some e, eff1) \<Rightarrow> (Some e, eff1)
      | (None, eff1) \<Rightarrow> download_loop w lib p d (i + length xs) ys eff1)"
proof (induction xs arbitrary: i eff)
  case Nil
  then show ?case by simp
next
  case (Cons x xs)
  show ?case
  proof (cases "process_sticker w lib p d i x")
    case (Pair msgs oc)
    then show ?thesis using Cons.IH by (cases oc) (simp_all split: prod.splits option.splits)
  qed
qed

lemma fetch_and_prepare_Inr:
  assumes "fetch_and_prepare w p pack_name eff = Inr (d, stickers, eff1)"
  shows "\<exists>c. written eff1 = written eff @ [(path_join d (str ''pack_info.txt''), Text c)]"
  using assms
  by (auto simp: fetch_and_prepare_def or_caught_def Let_def write_file_def print_line_def
      split: sum.splits if_splits json.splits)

lemma download_loop_all_saved:
  assumes "\<forall>k<length stickers. \<exists>msgs path content.
             process_sticker w lib p d (i + k) (stickers ! k) = (msgs, Saved path content)"
  shows "\<exists>eff1 files.
           download_loop w lib p d i stickers eff = (None, eff1) \<and>
           written eff1 = written eff @ files \<and> length files = length stickers \<and>
           (\<forall>k<length stickers. \<exists>msgs content.
              process_sticker w lib p d (i + k) (stickers ! k) = (msgs, Saved (fst (files ! k)) content) \<and>
              snd (files ! k) = Bytes content)"
  using assms
proof (induction stickers arbitrary: i eff)
  case Nil
  then show ?case by simp
next
  case (Cons x xs)
  from Cons.prems[rule_format, of 0] obtain msgs path content where
    x: "process_sticker w lib p d i x = (msgs, Saved path content)" by auto
  let ?eff = "write_file path (Bytes content) (print_lines msgs eff)"
  have tail: "\<forall>k<length xs. \<exists>msgs path content.
      process_sticker w lib p d (Suc i + k) (xs ! k) = (msgs, Saved path content)"
  proof (intro allI impI)
    fix k assume "k < length xs"
    then show "\<exists>msgs path content.
      process_sticker w lib p d (Suc i + k) (xs ! k) = (msgs, Saved path content)"
      using Cons.prems[rule_format, of "Suc k"] by simp
  qed
  from Cons.IH[OF tail, of ?eff] obtain eff1 files where
    l: "download_loop w lib p d (Suc i) xs ?eff = (None, eff1)" and
    wr: "written eff1 = written ?eff @ files" and len: "length files = length xs" and
    each: "\<forall>k<length xs. \<exists>msgs content.
      process_sticker w lib p d (Suc i + k) (xs ! k) = (msgs, Saved (fst (files ! k)) content) \<and>
      snd (files ! k) = Bytes content"
    by blast
  let ?files = "(path, Bytes content) # files"
  have "download_loop w lib p d i (x # xs) eff = (None, eff1)"
    using x l by simp
  moreover have "written eff1 = written eff @ ?files"
    using wr by (simp add: write_file_def print_lines_def)
  moreover have "length ?files = length (x # xs)" using len by simp
  moreover have "\<forall>k<length (x # xs). \<exists>msgs content.
      process_sticker w lib p d (i + k) ((x # xs) ! k) = (msgs, Saved (fst (?files ! k)) content) \<and>
      snd (?files ! k) = Bytes content"
  proof (intro allI impI)
    fix k assume k: "k < length (x # xs)"
    show "\<exists>msgs content.
      process_sticker w lib p d (i + k) ((x # xs) ! k) = (msgs, Saved (fst (?files ! k)) content) \<and>
      snd (?files ! k) = Bytes content"
    proof (cases k)
      case 0
      then show ?thesis using x by simp
    next
      case (Suc j)
      with k have "j < length xs" by simp
      with each Suc show ?thesis by simp
    qed
  qed
  ultimately show ?case by blast
qed

lemma numbered_paths_distinct:
  assumes "\<forall>k<length ps. \<exists>r. ps ! k = path_join d (fmt_03d (k + 1) @ 95 # r)"
  shows "distinct ps \<and> path_join d (str ''pack_info.txt'') \<notin> set ps"
proof
  have rel: "fmt_03d n @ 95 # r \<noteq> [] \<and> hd (fmt_03d n @ 95 # r) \<noteq> 47" for n r
    using hd_fmt_03d[of n "95 # r"] by (auto simp: fmt_03d_not_Nil)
  show "distinct ps"
    unfolding distinct_conv_nth
  proof (intro allI impI)
    fix i j assume i: "i < length ps" and j: "j < length ps" and ne: "i \<noteq> j"
    from assms i obtain r where ri: "ps ! i = path_join d (fmt_03d (i + 1) @ 95 # r)" by blast
    from assms j obtain r' where rj: "ps ! j = path_join d (fmt_03d (j + 1) @ 95 # r')" by blast
    show "ps ! i \<noteq> ps ! j"
    proof
      assume "ps ! i = ps ! j"
      with ri rj have "path_join d (fmt_03d (i + 1) @ 95 # r) = path_join d (fmt_03d (j + 1) @ 95 # r')"
        by simp
      then have "fmt_03d (i + 1) @ 95 # r = fmt_03d (j + 1) @ 95 # r'"
        using rel path_join_inj by blast
      then have "i + 1 = j + 1" by (rule numbered_inj)
      with ne show False by simp
    qed
  qed
  show "path_join d (str ''pack_info.txt'') \<notin> set ps"
  proof
    assume "path_join d (str ''pack_info.txt'') \<in> set ps"
    then obtain k where k: "k < length ps" and pk: "ps ! k = path_join d (str ''pack_info.txt'')"
      by (auto simp: in_set_conv_nth)
    from assms k obtain r where "ps ! k = path_join d (fmt_03d (k + 1) @ 95 # r)" by blast
    with pk have "path_join d (fmt_03d (k + 1) @ 95 # r) = path_join d (str ''pack_info.txt'')"
      by simp
    moreover have "str ''pack_info.txt'' \<noteq> [] \<and> hd (str ''pack_info.txt'') \<noteq> 47"
      by (simp add: str_def)
    ultimately have "fmt_03d (k + 1) @ 95 # r = str ''pack_info.txt''"
      using rel path_join_inj by blast
    then have "hd (fmt_03d (k + 1) @ 95 # r) = 112" by (simp add: str_def)
    with hd_fmt_03d[of "k + 1" "95 # r"] show False by simp
  qed
qed

lemma sticker_filename_inj:
  assumes "sticker_filename i emoji ext = Inr name" and "sticker_filename j emoji' ext' = Inr name"
  shows "i = j"
proof -
  from sticker_filename_Inr[OF assms(1)] obtain s where
    "name = fmt_03d (i + 1) @ 95 # (sanitize_filename s @ ext)" by auto
  moreover from sticker_filename_Inr[OF assms(2)] obtain s' where
    "name = fmt_03d (j + 1) @ 95 # (sanitize_filename s' @ ext')" by auto
  ultimately have "i + 1 = j + 1" using numbered_inj by metis
  then show ?thesis by simp
qed

section \<open>The example runs, evaluated\<close>

lemma fmt_small: "fmt_03d 1 = str ''001''" "fmt_03d 2 = str ''002''" "fmt_03d 3 = str ''003''"
  "dec 1 = str ''1''" "dec 2 = str ''2''" "dec 3 = str ''3''"
  "fmt_03d (Suc 0) = str ''001''" "dec (Suc 0) = str ''1''"
  "fmt_03d (Suc (Suc 0)) = str ''002''" "dec (Suc (Suc 0)) = str ''2''"
  "fmt_03d (Suc (Suc (Suc 0))) = str ''003''" "dec (Suc (Suc (Suc 0))) = str ''3''"
  by code_simp+

lemmas eval_defs = process_sticker_def on_value_def save_sticker_def handle_conversion_def
  convert_tgs_to_lottie_def sticker_filename_def sanitize_filename_def strip_def replace_char_def
  py_isspace_def illegal_chars_def path_join_def endswith_def py_upper_def py_lower_def
  example_world_def example_library_def example_params_def example_stickers_def
  example_pack_dir_def gz_empty_object_def file_reply_def not_found_reply_def Let_def

lemma ps1:
  "process_sticker example_world example_library example_params example_pack_dir 0
     (example_stickers ! 0) =
   ([[Lit (str ''Error converting TGS to Lottie: ''), Exc GzipError]],
    Saved (str ''downloads/My Pack (Foo)/001_'' @ [128512] @ str ''.tgs'') [1, 2, 3])"
  by (simp add: eval_defs fmt_small str_def)

lemma ps2:
  "process_sticker example_world example_library example_params example_pack_dir 1
     (example_stickers ! 1) =
   ([], Saved (str ''downloads/My Pack (Foo)/002_'' @ [128293] @ str ''.webp'') [82, 73, 70, 70])"
  by (simp add: eval_defs fmt_small str_def)

lemma ps3:
  "process_sticker example_world example_library example_params example_pack_dir 2
     (example_stickers ! 2) =
   ([], Saved (str ''downloads/My Pack (Foo)/003_sticker.webp'') [82, 73, 70, 70, 0])"
  by (simp add: eval_defs fmt_small str_def)

lemmas run_defs = download_sticker_pack_def checked_pack_name_def extract_pack_name_def
  generic_url_path_def scheme_char_def valid_formats_def fetch_and_prepare_def or_caught_def
  example_pack_def py_len_def print_line_def print_lines_def write_file_def no_effects_def
  handler_def download_failure_world_def write_failure_world_def unknown_pack_params_def

lemma run_ok:
  "fst (download_sticker_pack example_world example_library example_params) = Completed \<and>
   map fst (written (snd (download_sticker_pack example_world example_library example_params))) =
     [str ''downloads/My Pack (Foo)/pack_info.txt'',
      str ''downloads/My Pack (Foo)/001_'' @ [128512] @ str ''.tgs'',
      str ''downloads/My Pack (Foo)/002_'' @ [128293] @ str ''.webp'',
      str ''downloads/My Pack (Foo)/003_sticker.webp'']"
  by (simp add: run_defs eval_defs fmt_small str_def)

lemma run_download_fails:
  "fst (download_sticker_pack download_failure_world example_library example_params) = Completed \<and>
   map fst (written (snd (download_sticker_pack download_failure_world example_library example_params))) =
     [str ''downloads/My Pack (Foo)/pack_info.txt'',
      str ''downloads/My Pack (Foo)/001_'' @ [128512] @ str ''.tgs'',
      str ''downloads/My Pack (Foo)/003_sticker.webp'']"
  by (simp add: run_defs eval_defs fmt_small str_def)

lemma run_write_fails:
  "fst (download_sticker_pack write_failure_world example_library example_params) = Caught OSError \<and>
   map fst (written (snd (download_sticker_pack write_failure_world example_library example_params))) =
     [str ''downloads/My Pack (Foo)/pack_info.txt'']"
  by (simp add: run_defs eval_defs fmt_small str_def)

lemma run_unknown:
  "download_sticker_pack example_world example_library unknown_pack_params =
     (ReturnedNotOk,
      \<lparr>stdout = [[Lit (str ''Error: ''), Val (JStr (str ''Bad Request: STICKERSET_INVALID''))]],
       made_dirs = [], written = []\<rparr>)"
  by (simp add: run_defs eval_defs fmt_small str_def)

lemma example_name:
  "checked_pack_name example_library (pack_url example_params) = Inr (Some (str ''Foo''))"
  "checked_pack_name example_library (pack_url unknown_pack_params) = Inr (Some (str ''Nope''))"
  by code_simp+

lemma example_preconditions:
  "TOKEN example_world \<noteq> None" "TOKEN example_world \<noteq> Some []"
  "TOKEN download_failure_world \<noteq> None" "TOKEN download_failure_world \<noteq> Some []"
  "TOKEN write_failure_world \<noteq> None" "TOKEN write_failure_world \<noteq> Some []"
  "py_upper (static_format example_params) \<in> set valid_formats"
  "py_upper (static_format unknown_pack_params) \<in> set valid_formats"
  by (simp_all add: example_world_def download_failure_world_def write_failure_world_def
      example_params_def unknown_pack_params_def py_upper_def valid_formats_def str_def)

lemmas prepare_defs = fetch_and_prepare_def or_caught_def example_world_def example_pack_def
  example_params_def py_len_def example_stickers_def sanitize_filename_def strip_def
  replace_char_def py_isspace_def illegal_chars_def path_join_def example_pack_dir_def
  print_line_def write_file_def no_effects_def fmt_small Let_def str_def numeral_3_eq_3
  example_prepared_def download_failure_world_def write_failure_world_def endswith_def

lemma example_prepare:
  "fetch_and_prepare example_world example_params (str ''Foo'') no_effects =
     Inr (example_pack_dir, example_stickers, example_prepared)"
  "fetch_and_prepare write_failure_world example_params (str ''Foo'') no_effects =
     Inr (example_pack_dir, example_stickers, example_prepared)"
  by (simp_all add: prepare_defs)

lemma example_all_saved:
  "\<forall>k<length example_stickers. \<exists>msgs path content.
     process_sticker example_world example_library example_params example_pack_dir k
       (example_stickers ! k) = (msgs, Saved path content)"
proof (intro allI impI)
  fix k assume "k < length example_stickers"
  then have "k = 0 \<or> k = 1 \<or> k = 2" by (auto simp: example_stickers_def)
  then show "\<exists>msgs path content.
     process_sticker example_world example_library example_params example_pack_dir k
       (example_stickers ! k) = (msgs, Saved path content)"
    using ps1 ps2 ps3 by auto
qed

lemma ps1_writable:
  "process_sticker (write_failure_world\<lparr>open_fails := \<lambda>path. False\<rparr>) example_library
     example_params example_pack_dir (length ([]::json list)) (example_stickers ! 0) =
   ([[Lit (str ''Error converting TGS to Lottie: ''), Exc GzipError]],
    Saved (str ''downloads/My Pack (Foo)/001_'' @ [128512] @ str ''.tgs'') [1, 2, 3])"
  by (simp add: eval_defs write_failure_world_def fmt_small str_def)

lemma ps23_write_failure:
  "process_sticker write_failure_world example_library example_params example_pack_dir 1
     (example_stickers ! 1) =
   ([], Saved (str ''downloads/My Pack (Foo)/002_'' @ [128293] @ str ''.webp'') [82, 73, 70, 70])"
  "process_sticker write_failure_world example_library example_params example_pack_dir 2
     (example_stickers ! 2) =
   ([], Saved (str ''downloads/My Pack (Foo)/003_sticker.webp'') [82, 73, 70, 70, 0])"
  by (simp_all add: eval_defs write_failure_world_def fmt_small str_def)

section \<open>The claims\<close>

text \<open>
  Claim C1, as the code has it. For a URL that \<^verbatim>\<open>urlparse\<close> gives the path \<open>path\<close>: the
  pack name is found exactly when \<^verbatim>\<open>addstickers\<close> is one of the segments of the path
  and the last segment is not empty, and it is the last segment; otherwise, and only
  then, there is none, and the run (with a token and a valid format) prints the
  invalid-URL lines and exits with status 1. When \<^verbatim>\<open>addstickers\<close> is the segment before
  the last, as in the documented form of the URL, the name is the segment that
  follows it.
\<close>

theorem checked_pack_name_last_segment:
  "urlparse_path lib url = Some path \<longrightarrow>
     (checked_pack_name lib url = Inr (Some name) \<longleftrightarrow>
        str ''addstickers'' \<in> set (split_str 47 path) \<and> last (split_str 47 path) \<noteq> [] \<and>
        name = last (split_str 47 path)) \<and>
     (checked_pack_name lib url = Inr None \<longleftrightarrow>
        str ''addstickers'' \<notin> set (split_str 47 path) \<or> last (split_str 47 path) = []) \<and>
     (name \<noteq> [] \<and> split_str 47 path = pre @ [str ''addstickers'', name] \<longrightarrow>
        checked_pack_name lib url = Inr (Some name)) \<and>
     (TOKEN w \<noteq> None \<and> TOKEN w \<noteq> Some [] \<and> py_upper (static_format p) \<in> set valid_formats \<and>
      pack_url p = url \<and> checked_pack_name lib url = Inr None \<longrightarrow>
        download_sticker_pack w lib p = (SysExit 1, print_lines invalid_url_lines no_effects))"
  by (auto simp: checked_pack_name_def extract_pack_name_def Let_def download_sticker_pack_def)

theorem checked_pack_name_last_segment_witness:
  "urlparse_path example_library (str ''https://t.me/addstickers/Foo'') = Some (str ''/addstickers/Foo'') \<and>
   split_str 47 (str ''/addstickers/Foo'') = [[], str ''addstickers'', str ''Foo''] \<and>
   checked_pack_name example_library (str ''https://t.me/addstickers/Foo'') = Inr (Some (str ''Foo''))"
proof -
  have a: "urlparse_path example_library (str ''https://t.me/addstickers/Foo'') = Some (str ''/addstickers/Foo'')"
    by code_simp
  have b: "split_str 47 (str ''/addstickers/Foo'') = [[]] @ [str ''addstickers'', str ''Foo'']"
    by code_simp
  have c: "str ''Foo'' \<noteq> []" by code_simp
  show ?thesis
    using a b c checked_pack_name_last_segment[where lib = example_library
        and url = "str ''https://t.me/addstickers/Foo''" and path = "str ''/addstickers/Foo''"
        and name = "str ''Foo''" and pre = "[[]]"]
    by simp
qed

text \<open>
  Claim C1 as stated fails: the segment that follows \<^verbatim>\<open>addstickers\<close> is not returned
  when further segments follow it (the last one is), and a URL whose last segment is
  \<^verbatim>\<open>addstickers\<close> itself is accepted, with that name.
\<close>

theorem extract_following_segment_counterexample:
  "urlparse_path example_library (str ''https://t.me/addstickers/Foo/Bar'') = Some (str ''/addstickers/Foo/Bar'') \<and>
   split_str 47 (str ''/addstickers/Foo/Bar'') = [[], str ''addstickers'', str ''Foo'', str ''Bar''] \<and>
   checked_pack_name example_library (str ''https://t.me/addstickers/Foo/Bar'') = Inr (Some (str ''Bar'')) \<and>
   str ''Bar'' \<noteq> str ''Foo'' \<and>
   urlparse_path example_library (str ''https://t.me/addstickers'') = Some (str ''/addstickers'') \<and>
   split_str 47 (str ''/addstickers'') = [[], str ''addstickers''] \<and>
   checked_pack_name example_library (str ''https://t.me/addstickers'') = Inr (Some (str ''addstickers''))"
  by code_simp

text \<open>
  Claim C2, as the code has it. When a sticker is fetched, converted and named, and
  opening its output file fails, the \<^verbatim>\<open>OSError\<close> leaves the loop: the handler of the
  run prints it and the function returns (exit status 0). Whatever stickers follow
  are not processed, and the files written are those written before.
\<close>

theorem write_failure_ends_run:
  assumes "TOKEN w \<noteq> None" and "TOKEN w \<noteq> Some []"
    and "py_upper (static_format p) \<in> set valid_formats"
    and "checked_pack_name lib (pack_url p) = Inr (Some pack_name)"
    and "fetch_and_prepare w p pack_name no_effects = Inr (d, before @ sticker # rest, eff)"
    and "download_loop w lib p d 0 before eff = (None, eff1)"
    and "process_sticker (w\<lparr>open_fails := \<lambda>path. False\<rparr>) lib p d (length before) sticker =
           (msgs, Saved path content)"
    and "open_fails w path"
  shows "download_sticker_pack w lib p =
           (Caught OSError, print_line [Lit (str ''Error: ''), Exc OSError] (print_lines msgs eff1)) \<and>
         written (print_line [Lit (str ''Error: ''), Exc OSError] (print_lines msgs eff1)) = written eff1 \<and>
         exit_status (Caught OSError) = 0"
proof -
  have "process_sticker w lib p d (length before) sticker = (msgs, Raise OSError)"
    using process_sticker_open_fails[OF assms(7)] assms(8) by simp
  then have "download_loop w lib p d 0 (before @ sticker # rest) eff =
      (Some OSError, print_lines msgs eff1)"
    using assms(6) by (simp add: download_loop_append)
  then have "download_sticker_pack w lib p =
      (Caught OSError, print_line [Lit (str ''Error: ''), Exc OSError] (print_lines msgs eff1))"
    using assms(1-5) by (simp add: download_sticker_pack_def handler_def)
  then show ?thesis by (simp add: print_line_def print_lines_def)
qed

theorem write_failure_ends_run_witness:
  "open_fails write_failure_world (str ''downloads/My Pack (Foo)/001_'' @ [128512] @ str ''.tgs'') \<and>
   download_sticker_pack write_failure_world example_library example_params =
     (Caught OSError,
      print_line [Lit (str ''Error: ''), Exc OSError]
        (print_lines [[Lit (str ''Error converting TGS to Lottie: ''), Exc GzipError]]
           example_prepared)) \<and>
   map fst (written (snd (download_sticker_pack write_failure_world example_library example_params))) =
     [str ''downloads/My Pack (Foo)/pack_info.txt'']"
proof -
  have split: "example_stickers = [] @ (example_stickers ! 0) # [example_stickers ! 1, example_stickers ! 2]"
    by (simp add: example_stickers_def)
  have prep: "fetch_and_prepare write_failure_world example_params (str ''Foo'') no_effects =
     Inr (example_pack_dir, [] @ (example_stickers ! 0) # [example_stickers ! 1, example_stickers ! 2],
          example_prepared)"
    using example_prepare(2) split by simp
  have loop: "download_loop write_failure_world example_library example_params example_pack_dir 0 []
      example_prepared = (None, example_prepared)"
    by simp
  have fails: "open_fails write_failure_world
      (str ''downloads/My Pack (Foo)/001_'' @ [128512] @ str ''.tgs'')"
    by (simp add: write_failure_world_def endswith_def str_def)
  show ?thesis
    using write_failure_ends_run[OF example_preconditions(5,6,7) example_name(1) prep loop
        ps1_writable fails]
      fails by (simp add: example_prepared_def print_line_def print_lines_def)
qed

text \<open>
  Claim C2 as stated fails: the first sticker's file cannot be opened, the run ends
  in the handler with only the manifest written, and the second and third stickers,
  which would have been fetched and saved, are never reached.
\<close>

theorem write_failure_not_local_counterexample:
  "fst (download_sticker_pack write_failure_world example_library example_params) = Caught OSError \<and>
   map fst (written (snd (download_sticker_pack write_failure_world example_library example_params))) =
     [str ''downloads/My Pack (Foo)/pack_info.txt''] \<and>
   process_sticker write_failure_world example_library example_params example_pack_dir 1
     (example_stickers ! 1) =
   ([], Saved (str ''downloads/My Pack (Foo)/002_'' @ [128293] @ str ''.webp'') [82, 73, 70, 70]) \<and>
   process_sticker write_failure_world example_library example_params example_pack_dir 2
     (example_stickers ! 2) =
   ([], Saved (str ''downloads/My Pack (Foo)/003_sticker.webp'') [82, 73, 70, 70, 0])"
  using run_write_fails ps23_write_failure by simp

text \<open>
  Claim C3, as the code has it. When the metadata reply is an envelope that is not
  ok, the run prints \<^verbatim>\<open>Error:\<close> with the description of the reply (\<^verbatim>\<open>Unknown error\<close>
  without one), creates no directory and writes no file, and the function returns:
  the process ends with status 0. A missing token and an invalid URL print their
  lines and exit with status 1.
\<close>

theorem not_ok_reply_returns:
  assumes "TOKEN w \<noteq> None" and "TOKEN w \<noteq> Some []"
    and "py_upper (static_format p) \<in> set valid_formats"
    and "checked_pack_name lib (pack_url p) = Inr (Some pack_name)"
    and "getStickerSet w pack_name = Inr (JDict data)"
    and "\<not> truthy (case map_of data (str ''ok'') of None \<Rightarrow> JNull | Some v \<Rightarrow> v)"
  shows "download_sticker_pack w lib p =
           (ReturnedNotOk,
            \<lparr>stdout = [[Lit (str ''Error: ''),
                         Val (case map_of data (str ''description'') of
                                None \<Rightarrow> JStr (str ''Unknown error'') | Some v \<Rightarrow> v)]],
             made_dirs = [], written = []\<rparr>) \<and>
         exit_status ReturnedNotOk = 0 \<and>
         (TOKEN w0 = None \<or> TOKEN w0 = Some [] \<longrightarrow>
            download_sticker_pack w0 lib p = (SysExit 1, print_lines missing_token_lines no_effects)) \<and>
         (py_upper (static_format p0) \<in> set valid_formats \<and>
          checked_pack_name lib (pack_url p0) = Inr None \<longrightarrow>
            download_sticker_pack w lib p0 = (SysExit 1, print_lines invalid_url_lines no_effects)) \<and>
         exit_status (SysExit 1) = 1"
proof -
  have "fetch_and_prepare w p pack_name no_effects =
      Inl (ReturnedNotOk,
           print_line [Lit (str ''Error: ''),
                       Val (case map_of data (str ''description'') of
                              None \<Rightarrow> JStr (str ''Unknown error'') | Some v \<Rightarrow> v)] no_effects)"
    using assms(5,6) by (simp add: fetch_and_prepare_def or_caught_def)
  then have "download_sticker_pack w lib p =
           (ReturnedNotOk,
            \<lparr>stdout = [[Lit (str ''Error: ''),
                         Val (case map_of data (str ''description'') of
                                None \<Rightarrow> JStr (str ''Unknown error'') | Some v \<Rightarrow> v)]],
             made_dirs = [], written = []\<rparr>)"
    using assms(1-4) by (simp add: download_sticker_pack_def print_line_def no_effects_def)
  moreover have "download_sticker_pack w0 lib p = (SysExit 1, print_lines missing_token_lines no_effects)"
    if "TOKEN w0 = None \<or> TOKEN w0 = Some []"
    using that by (auto simp: download_sticker_pack_def)
  moreover have "download_sticker_pack w lib p0 = (SysExit 1, print_lines invalid_url_lines no_effects)"
    if "py_upper (static_format p0) \<in> set valid_formats \<and> checked_pack_name lib (pack_url p0) = Inr None"
    using that assms(1,2) by (auto simp: download_sticker_pack_def)
  ultimately show ?thesis by simp
qed

theorem not_ok_reply_returns_witness:
  "getStickerSet example_world (str ''Nope'') = Inr not_found_reply \<and>
   download_sticker_pack example_world example_library unknown_pack_params =
     (ReturnedNotOk,
      \<lparr>stdout = [[Lit (str ''Error: ''), Val (JStr (str ''Bad Request: STICKERSET_INVALID''))]],
       made_dirs = [], written = []\<rparr>) \<and>
   exit_status ReturnedNotOk = 0 \<and>
   download_sticker_pack (example_world\<lparr>TOKEN := None\<rparr>) example_library unknown_pack_params =
     (SysExit 1, print_lines missing_token_lines no_effects) \<and>
   exit_status (SysExit 1) = 1"
proof -
  let ?data = "[(str ''ok'', JBool False), (str ''error_code'', JInt 400),
            (str ''description'', JStr (str ''Bad Request: STICKERSET_INVALID''))]"
  have a: "getStickerSet example_world (str ''Nope'') = Inr (JDict ?data)"
    by (simp add: example_world_def not_found_reply_def str_def)
  have b: "\<not> truthy (case map_of ?data (str ''ok'') of None \<Rightarrow> JNull | Some v \<Rightarrow> v)"
    by (simp add: str_def)
  have c: "(case map_of ?data (str ''description'') of
              None \<Rightarrow> JStr (str ''Unknown error'') | Some v \<Rightarrow> v) =
           JStr (str ''Bad Request: STICKERSET_INVALID'')"
    by (simp add: str_def)
  have d: "TOKEN (example_world\<lparr>TOKEN := None\<rparr>) = None \<or>
           TOKEN (example_world\<lparr>TOKEN := None\<rparr>) = Some []" by simp
  show ?thesis
    using not_ok_reply_returns[OF example_preconditions(1,2,8) example_name(2) a b,
        where ?w0.0 = "example_world\<lparr>TOKEN := None\<rparr>"] a c d
    by (simp add: not_found_reply_def)
qed

text \<open>
  Claim C3 as stated fails: for a pack the service does not know, the run reports
  the description and ends with exit status 0, not a non-zero one.
\<close>

theorem not_found_exit_status_counterexample:
  "fst (download_sticker_pack example_world example_library unknown_pack_params) = ReturnedNotOk \<and>
   exit_status (fst (download_sticker_pack example_world example_library unknown_pack_params)) = 0 \<and>
   stdout (snd (download_sticker_pack example_world example_library unknown_pack_params)) =
     [[Lit (str ''Error: ''), Val (JStr (str ''Bad Request: STICKERSET_INVALID''))]]"
  using run_unknown by simp

text \<open>
  Claim C4. In an iteration where the \<^verbatim>\<open>getFile\<close> reply is an envelope that is not ok, or
  where the path is resolved and the download answers with a status other than 200,
  the sticker is skipped: one line reporting the failure is printed, nothing is
  written, no exception leaves the iteration, and the loop goes on with the next
  sticker under the next index.
\<close>

theorem fetch_failure_skips:
  assumes "subscript sticker (str ''file_id'') = Inr file_id"
    and "getFile w i file_id = Inr file_data"
    and "dict_get file_data (str ''ok'') JNull = Inr ok"
    and "\<not> truthy ok \<or>
         (\<exists>result file_path status_code data.
            subscript file_data (str ''result'') = Inr result \<and>
            subscript result (str ''file_path'') = Inr file_path \<and>
            get_download w i file_path = Inr (status_code, data) \<and> status_code \<noteq> 200)"
  shows "process_sticker w lib p d i sticker =
           ([[Lit ((if truthy ok then str ''Failed to download sticker ''
                    else str ''Failed to get file path for sticker '') @ dec (i + 1))]], Skip) \<and>
         download_loop w lib p d i (sticker # rest) eff =
           download_loop w lib p d (i + 1) rest
             (print_lines
                [[Lit ((if truthy ok then str ''Failed to download sticker ''
                        else str ''Failed to get file path for sticker '') @ dec (i + 1))]] eff)"
proof -
  from assms(1) obtain kvs where s: "sticker = JDict kvs"
    by (cases sticker) auto
  have "process_sticker w lib p d i sticker =
           ([[Lit ((if truthy ok then str ''Failed to download sticker ''
                    else str ''Failed to get file path for sticker '') @ dec (i + 1))]], Skip)"
    using assms unfolding s process_sticker_def on_value_def by auto
  then show ?thesis by simp
qed

theorem fetch_failure_skips_witness:
  "subscript (example_stickers ! 1) (str ''file_id'') = Inr (JStr (str ''a2'')) \<and>
   getFile download_failure_world 1 (JStr (str ''a2'')) = Inr (file_reply (str ''stickers/file_2.webp'')) \<and>
   get_download download_failure_world 1 (JStr (str ''stickers/file_2.webp'')) = Inr (404, []) \<and>
   process_sticker download_failure_world example_library example_params example_pack_dir 1
     (example_stickers ! 1) = ([[Lit (str ''Failed to download sticker 2'')]], Skip) \<and>
   fst (download_sticker_pack download_failure_world example_library example_params) = Completed \<and>
   map fst (written (snd (download_sticker_pack download_failure_world example_library example_params))) =
     [str ''downloads/My Pack (Foo)/pack_info.txt'',
      str ''downloads/My Pack (Foo)/001_'' @ [128512] @ str ''.tgs'',
      str ''downloads/My Pack (Foo)/003_sticker.webp'']"
proof -
  have a: "subscript (example_stickers ! 1) (str ''file_id'') = Inr (JStr (str ''a2''))"
    by (simp add: example_stickers_def str_def)
  have b: "getFile download_failure_world 1 (JStr (str ''a2'')) =
      Inr (file_reply (str ''stickers/file_2.webp''))"
    by (simp add: download_failure_world_def example_world_def str_def)
  have c: "dict_get (file_reply (str ''stickers/file_2.webp'')) (str ''ok'') JNull = Inr (JBool True)"
    by (simp add: file_reply_def str_def)
  have d: "\<not> truthy (JBool True) \<or>
         (\<exists>result file_path status_code data.
            subscript (file_reply (str ''stickers/file_2.webp'')) (str ''result'') = Inr result \<and>
            subscript result (str ''file_path'') = Inr file_path \<and>
            get_download download_failure_world 1 file_path = Inr (status_code, data) \<and>
            status_code \<noteq> 200)"
    by (simp add: file_reply_def download_failure_world_def str_def)
  have e: "get_download download_failure_world 1 (JStr (str ''stickers/file_2.webp'')) = Inr (404, [])"
    by (simp add: download_failure_world_def)
  have f: "str ''Failed to download sticker '' @ dec (1 + 1) = str ''Failed to download sticker 2''"
    by (simp add: fmt_small str_def)
  show ?thesis
    using fetch_failure_skips[OF a b c d, of example_library example_params example_pack_dir]
      a b e f run_download_fails by simp
qed

text \<open>
  Claim C5. In a run that reaches the loop (token, valid format, pack name, metadata
  fetched, directory created and manifest written) and in which every one of the \<open>n\<close>
  stickers is fetched and saved, the run completes and has written exactly \<open>n + 1\<close>
  files: first the manifest \<^verbatim>\<open>pack_info.txt\<close>, then, for the \<open>k\<close>-th sticker in the order
  of the metadata (from 1), the file named by the index in three digits, \<^verbatim>\<open>_\<close>, the
  sanitised emoji (or \<^verbatim>\<open>sticker\<close>) and the extension, all in the pack directory. The
  paths written are pairwise distinct; indeed two file names composed for different
  indices always differ, whatever the emoji and the extension.
\<close>

theorem all_stickers_saved:
  assumes "TOKEN w \<noteq> None" and "TOKEN w \<noteq> Some []"
    and "py_upper (static_format p) \<in> set valid_formats"
    and "checked_pack_name lib (pack_url p) = Inr (Some pack_name)"
    and "fetch_and_prepare w p pack_name no_effects = Inr (d, stickers, eff)"
    and "\<forall>k<length stickers. \<exists>msgs path content.
           process_sticker w lib p d k (stickers ! k) = (msgs, Saved path content)"
  shows "\<exists>eff1. download_sticker_pack w lib p = (Completed, eff1) \<and>
     length (written eff1) = length stickers + 1 \<and>
     fst (written eff1 ! 0) = path_join d (str ''pack_info.txt'') \<and>
     (\<forall>k<length stickers. \<exists>emoji s ext content.
        dict_get (stickers ! k) (str ''emoji'') (JStr []) = Inr emoji \<and>
        (if truthy emoji then emoji else JStr (str ''sticker'')) = JStr s \<and>
        written eff1 ! (k + 1) =
          (path_join d (fmt_03d (k + 1) @ str ''_'' @ sanitize_filename s @ ext), Bytes content)) \<and>
     distinct (map fst (written eff1)) \<and>
     (\<forall>i j e e' x x' name.
        sticker_filename i e x = Inr name \<and> sticker_filename j e' x' = Inr name \<longrightarrow> i = j)"
proof -
  from fetch_and_prepare_Inr[OF assms(5)] obtain c where
    m: "written eff = [(path_join d (str ''pack_info.txt''), Text c)]"
    by (auto simp: no_effects_def)
  from assms(6) have "\<forall>k<length stickers. \<exists>msgs path content.
      process_sticker w lib p d (0 + k) (stickers ! k) = (msgs, Saved path content)" by simp
  from download_loop_all_saved[OF this, of eff] obtain eff1 files where
    l: "download_loop w lib p d 0 stickers eff = (None, eff1)" and
    wr: "written eff1 = written eff @ files" and len: "length files = length stickers" and
    each: "\<forall>k<length stickers. \<exists>msgs content.
      process_sticker w lib p d k (stickers ! k) = (msgs, Saved (fst (files ! k)) content) \<and>
      snd (files ! k) = Bytes content"
    by auto
  let ?line = "[Lit (10 # str ''Download complete! Stickers saved in: ''), Lit d]"
  let ?eff = "print_line ?line eff1"
  have run: "download_sticker_pack w lib p = (Completed, ?eff)"
    using assms(1-5) l by (simp add: download_sticker_pack_def)
  have w: "written ?eff = (path_join d (str ''pack_info.txt''), Text c) # files"
    using wr m by (simp add: print_line_def)
  have named: "\<exists>emoji s ext content.
        dict_get (stickers ! k) (str ''emoji'') (JStr []) = Inr emoji \<and>
        (if truthy emoji then emoji else JStr (str ''sticker'')) = JStr s \<and>
        files ! k =
          (path_join d (fmt_03d (k + 1) @ str ''_'' @ sanitize_filename s @ ext), Bytes content)"
    if k: "k < length stickers" for k
  proof -
    from each k obtain msgs content where
      ps: "process_sticker w lib p d k (stickers ! k) = (msgs, Saved (fst (files ! k)) content)"
      and sn: "snd (files ! k) = Bytes content" by blast
    from process_sticker_named[OF ps] obtain emoji s ext where
      "dict_get (stickers ! k) (str ''emoji'') (JStr []) = Inr emoji"
      "(if truthy emoji then emoji else JStr (str ''sticker'')) = JStr s"
      "fst (files ! k) = path_join d (fmt_03d (k + 1) @ str ''_'' @ sanitize_filename s @ ext)"
      by blast
    with sn show ?thesis by (metis prod.collapse)
  qed
  have "\<forall>k<length (map fst files). \<exists>r. map fst files ! k = path_join d (fmt_03d (k + 1) @ 95 # r)"
  proof (intro allI impI)
    fix k assume "k < length (map fst files)"
    with len have k: "k < length stickers" by simp
    from named[OF k] obtain s ext where
      "fst (files ! k) = path_join d (fmt_03d (k + 1) @ str ''_'' @ sanitize_filename s @ ext)"
      by force
    then have "fst (files ! k) = path_join d (fmt_03d (k + 1) @ 95 # (sanitize_filename s @ ext))"
      by (simp add: str_def)
    with k len show "\<exists>r. map fst files ! k = path_join d (fmt_03d (k + 1) @ 95 # r)"
      by auto
  qed
  from numbered_paths_distinct[OF this]
  have dist: "distinct (map fst (written ?eff))" using w by simp
  have "length (written ?eff) = length stickers + 1" using w len by simp
  moreover have "fst (written ?eff ! 0) = path_join d (str ''pack_info.txt'')" using w by simp
  moreover have "\<forall>k<length stickers. \<exists>emoji s ext content.
        dict_get (stickers ! k) (str ''emoji'') (JStr []) = Inr emoji \<and>
        (if truthy emoji then emoji else JStr (str ''sticker'')) = JStr s \<and>
        written ?eff ! (k + 1) =
          (path_join d (fmt_03d (k + 1) @ str ''_'' @ sanitize_filename s @ ext), Bytes content)"
    using named w by simp
  moreover have "\<forall>i j e e' x x' name.
        sticker_filename i e x = Inr name \<and> sticker_filename j e' x' = Inr name \<longrightarrow> i = j"
    using sticker_filename_inj by blast
  ultimately show ?thesis using run dist by blast
qed

theorem all_stickers_saved_witness:
  "fst (download_sticker_pack example_world example_library example_params) = Completed \<and>
   length (written (snd (download_sticker_pack example_world example_library example_params))) = 4 \<and>
   distinct (map fst (written (snd (download_sticker_pack example_world example_library example_params)))) \<and>
   map fst (written (snd (download_sticker_pack example_world example_library example_params))) =
     [str ''downloads/My Pack (Foo)/pack_info.txt'',
      str ''downloads/My Pack (Foo)/001_'' @ [128512] @ str ''.tgs'',
      str ''downloads/My Pack (Foo)/002_'' @ [128293] @ str ''.webp'',
      str ''downloads/My Pack (Foo)/003_sticker.webp'']"
proof -
  have n: "length example_stickers = 3" by (simp add: example_stickers_def)
  from all_stickers_saved[OF example_preconditions(1,2,7) example_name(1) example_prepare(1)
      example_all_saved]
  obtain eff1 where
    "download_sticker_pack example_world example_library example_params = (Completed, eff1)"
    "length (written eff1) = length example_stickers + 1" "distinct (map fst (written eff1))"
    by blast
  then show ?thesis using n run_ok by simp
qed

text \<open>
  Claim C6. For every string \<open>x\<close>, \<open>sanitize_filename x\<close> (a total function, so it always
  returns, and returns the same result for the same input) holds none of the nine characters of
  \<open>illegal_chars\<close>, no newline (10) and no carriage return (13), and is at most 50 code
  points long; the empty string gives the empty string.
\<close>

theorem sanitize_filename_safe:
  "set (sanitize_filename x) \<inter> set illegal_chars = {} \<and>
   10 \<notin> set (sanitize_filename x) \<and> 13 \<notin> set (sanitize_filename x) \<and>
   length (sanitize_filename x) \<le> 50 \<and>
   sanitize_filename [] = []"
proof -
  have "32 \<notin> set illegal_chars" by (simp add: illegal_chars_def)
  then have "set (sanitize_filename x) \<inter> set illegal_chars = {}"
    using set_sanitize_filename[of x] by auto
  moreover have "10 \<notin> set (sanitize_filename x)" "13 \<notin> set (sanitize_filename x)"
    using set_sanitize_filename[of x] by auto
  moreover have "length (sanitize_filename x) \<le> 50"
    by (simp add: sanitize_filename_def Let_def)
  moreover have "sanitize_filename [] = []"
    by (simp add: sanitize_filename_def Let_def replace_char_def strip_def)
  ultimately show ?thesis by simp
qed

theorem sanitize_filename_safe_witness:
  "sanitize_filename (str ''  a<b>:c/d e? '' @ [10, 13] @ replicate 60 120)
     = str ''abcd e   '' @ replicate 41 120 \<and>
   set (str ''abcd e   '' @ replicate 41 120) \<inter> set illegal_chars = {} \<and>
   length (str ''abcd e   '' @ replicate 41 120) \<le> 50"
  using sanitize_filename_safe[of "str ''  a<b>:c/d e? '' @ [10, 13] @ replicate 60 120"]
  by (simp only: sanitize_example)

text \<open>
  Claim C7. For an animated payload (path ending in \<^verbatim>\<open>.tgs\<close>) with conversion asked
  for, when decompressing raises, or parsing the decompressed bytes raises, the
  converter returns \<^verbatim>\<open>None\<close> after printing one diagnostic line, the payload is kept
  unchanged with the extension \<^verbatim>\<open>.tgs\<close>, and whenever \<open>save_sticker\<close> saves a file it
  holds the downloaded bytes under a path ending in \<^verbatim>\<open>.tgs\<close>. The conversion has no
  other outcome: \<open>handle_conversion\<close> returns an extension and bytes on every input.
\<close>

theorem corrupt_animation_falls_back:
  "endswith fp (str ''.tgs'') \<and> convert_tgs p \<and>
   (gzip_decompress lib data = None \<or>
    (\<exists>raw. gzip_decompress lib data = Some raw \<and> json_loads lib raw = None)) \<longrightarrow>
     snd (convert_tgs_to_lottie lib data) = JNull \<and>
     (\<exists>e. handle_conversion lib p fp data =
            ([[Lit (str ''Error converting TGS to Lottie: ''), Exc e]], str ''.tgs'', data)) \<and>
     (\<forall>msgs path content.
        save_sticker w lib p d i emoji (JStr fp) data = (msgs, Saved path content) \<longrightarrow>
        content = data \<and> endswith path (str ''.tgs''))"
proof (intro impI)
  assume h: "endswith fp (str ''.tgs'') \<and> convert_tgs p \<and>
   (gzip_decompress lib data = None \<or>
    (\<exists>raw. gzip_decompress lib data = Some raw \<and> json_loads lib raw = None))"
  then obtain e where c: "convert_tgs_to_lottie lib data =
      ([[Lit (str ''Error converting TGS to Lottie: ''), Exc e]], JNull)"
    by (auto simp: convert_tgs_to_lottie_def)
  with h have hc: "handle_conversion lib p fp data =
      ([[Lit (str ''Error converting TGS to Lottie: ''), Exc e]], str ''.tgs'', data)"
    by (simp add: handle_conversion_def)
  have "content = data \<and> endswith path (str ''.tgs'')"
    if s: "save_sticker w lib p d i emoji (JStr fp) data = (msgs, Saved path content)"
    for msgs path content
  proof -
    from save_sticker_Saved[OF s] obtain ext' name where
      "handle_conversion lib p fp data = (msgs, ext', content)"
      "sticker_filename i emoji ext' = Inr name" "path = path_join d name"
      by auto
    with hc show ?thesis by (auto simp: sticker_filename_endswith)
  qed
  with c hc show "snd (convert_tgs_to_lottie lib data) = JNull \<and>
     (\<exists>e. handle_conversion lib p fp data =
            ([[Lit (str ''Error converting TGS to Lottie: ''), Exc e]], str ''.tgs'', data)) \<and>
     (\<forall>msgs path content.
        save_sticker w lib p d i emoji (JStr fp) data = (msgs, Saved path content) \<longrightarrow>
        content = data \<and> endswith path (str ''.tgs''))"
    by auto
qed

theorem corrupt_animation_falls_back_witness:
  "endswith (str ''stickers/file_1.tgs'') (str ''.tgs'') \<and> convert_tgs example_params \<and>
   gzip_decompress example_library [1, 2, 3] = None \<and>
   snd (convert_tgs_to_lottie example_library [1, 2, 3]) = JNull \<and>
   (\<exists>e. handle_conversion example_library example_params (str ''stickers/file_1.tgs'') [1, 2, 3] =
      ([[Lit (str ''Error converting TGS to Lottie: ''), Exc e]], str ''.tgs'', [1, 2, 3]))"
proof -
  have a: "endswith (str ''stickers/file_1.tgs'') (str ''.tgs'') \<and> convert_tgs example_params \<and>
           gzip_decompress example_library [1, 2, 3] = None"
    by code_simp
  show ?thesis
    using a corrupt_animation_falls_back[where fp = "str ''stickers/file_1.tgs''"
        and p = example_params and lib = example_library and data = "[1, 2, 3]"]
    by blast
qed

text \<open>
  Claim C8, where the code departs from it. When the payload decompresses and parses
  to a document that Python counts as false (the empty object or array, zero, the
  empty string, \<^verbatim>\<open>false\<close>, \<^verbatim>\<open>null\<close>), the converter returns the document and
  prints nothing, but the test \<^verbatim>\<open>if lottie_data:\<close> takes the branch of a failed
  conversion: the compressed bytes are kept with the extension \<^verbatim>\<open>.tgs\<close> and no JSON
  text is produced.
\<close>

theorem falsy_document_falls_back:
  "endswith fp (str ''.tgs'') \<and> convert_tgs p \<and>
   gzip_decompress lib data = Some raw \<and> json_loads lib raw = Some doc \<and> \<not> truthy doc \<longrightarrow>
     convert_tgs_to_lottie lib data = ([], doc) \<and>
     handle_conversion lib p fp data = ([], str ''.tgs'', data)"
  by (simp add: handle_conversion_def convert_tgs_to_lottie_def)

theorem falsy_document_falls_back_witness:
  "gzip_decompress example_library gz_empty_object = Some [123, 125] \<and>
   json_loads example_library [123, 125] = Some (JDict []) \<and>
   handle_conversion example_library example_params (str ''stickers/file_1.tgs'') gz_empty_object =
     ([], str ''.tgs'', gz_empty_object)"
proof -
  have a: "endswith (str ''stickers/file_1.tgs'') (str ''.tgs'') \<and> convert_tgs example_params \<and>
           gzip_decompress example_library gz_empty_object = Some [123, 125] \<and>
           json_loads example_library [123, 125] = Some (JDict []) \<and> \<not> truthy (JDict [])"
    by code_simp
  show ?thesis
    using a falsy_document_falls_back[where fp = "str ''stickers/file_1.tgs''"
        and p = example_params and lib = example_library and data = gz_empty_object
        and raw = "[123, 125]" and doc = "JDict []"]
    by blast
qed

text \<open>
  Claim C9. When no conversion is asked for the sticker's kind (an animated sticker,
  path ending in \<^verbatim>\<open>.tgs\<close>, without \<^verbatim>\<open>convert_tgs\<close>; a static sticker with the format
  WEBP in any letter case), the bytes to save are the downloaded ones, nothing is
  printed, the extension is \<^verbatim>\<open>.tgs\<close> or \<^verbatim>\<open>.webp\<close>, and whenever \<open>save_sticker\<close> saves a
  file, it holds the downloaded bytes under a path with that extension.
\<close>

theorem no_conversion_identity:
  "(endswith fp (str ''.tgs'') \<and> \<not> convert_tgs p \<longrightarrow>
      handle_conversion lib p fp data = ([], str ''.tgs'', data) \<and>
      (\<forall>msgs path content.
         save_sticker w lib p d i emoji (JStr fp) data = (msgs, Saved path content) \<longrightarrow>
         content = data \<and> endswith path (str ''.tgs''))) \<and>
   (\<not> endswith fp (str ''.tgs'') \<and> py_upper (static_format p) = str ''WEBP'' \<longrightarrow>
      handle_conversion lib p fp data = ([], str ''.webp'', data) \<and>
      (\<forall>msgs path content.
         save_sticker w lib p d i emoji (JStr fp) data = (msgs, Saved path content) \<longrightarrow>
         content = data \<and> endswith path (str ''.webp'')))"
proof -
  have saved: "content = data \<and> endswith path ext"
    if h: "handle_conversion lib p fp data = ([], ext, data)"
      and s: "save_sticker w lib p d i emoji (JStr fp) data = (msgs, Saved path content)"
    for ext msgs path content
  proof -
    from save_sticker_Saved[OF s] obtain ext' name where
      "handle_conversion lib p fp data = (msgs, ext', content)"
      "sticker_filename i emoji ext' = Inr name" "path = path_join d name"
      by auto
    with h show ?thesis by (auto simp: sticker_filename_endswith)
  qed
  have a: "handle_conversion lib p fp data = ([], str ''.tgs'', data)"
    if "endswith fp (str ''.tgs'')" "\<not> convert_tgs p"
    using that by (simp add: handle_conversion_def)
  have b: "handle_conversion lib p fp data = ([], str ''.webp'', data)"
    if "\<not> endswith fp (str ''.tgs'')" "py_upper (static_format p) = str ''WEBP''"
    using that by (simp add: handle_conversion_def)
  show ?thesis using a b saved by blast
qed

theorem no_conversion_identity_witness:
  "handle_conversion example_library (example_params\<lparr>convert_tgs := False\<rparr>)
     (str ''stickers/file_1.tgs'') [1, 2, 3] = ([], str ''.tgs'', [1, 2, 3]) \<and>
   handle_conversion example_library example_params
     (str ''stickers/file_2.webp'') [82, 73, 70, 70] = ([], str ''.webp'', [82, 73, 70, 70])"
proof -
  have a: "endswith (str ''stickers/file_1.tgs'') (str ''.tgs'') \<and>
           \<not> convert_tgs (example_params\<lparr>convert_tgs := False\<rparr>)"
    by code_simp
  have b: "\<not> endswith (str ''stickers/file_2.webp'') (str ''.tgs'') \<and>
           py_upper (static_format example_params) = str ''WEBP''"
    by code_simp
  show ?thesis
    using a b
      no_conversion_identity[where fp = "str ''stickers/file_1.tgs''"
        and p = "example_params\<lparr>convert_tgs := False\<rparr>" and lib = example_library
        and data = "[1, 2, 3]"]
      no_conversion_identity[where fp = "str ''stickers/file_2.webp''"
        and p = example_params and lib = example_library and data = "[82, 73, 70, 70]"]
    by blast
qed

text \<open>
  Claim C10. When the sticker has no \<^verbatim>\<open>emoji\<close> key, or the emoji is the empty string, the
  file is named with the placeholder: index, \<^verbatim>\<open>_sticker\<close>, extension. When the emoji is
  a non-empty string of characters that sanitising removes (the illegal characters and
  white space), the name part is empty and the file is named index, \<^verbatim>\<open>_\<close>, extension:
  the placeholder is not used.
\<close>

theorem sticker_filename_placeholder:
  "(map_of kvs (str ''emoji'') = None \<or> map_of kvs (str ''emoji'') = Some (JStr []) \<longrightarrow>
      dict_get (JDict kvs) (str ''emoji'') (JStr []) = Inr (JStr []) \<and>
      sticker_filename i (JStr []) ext = Inr (fmt_03d (i + 1) @ str ''_sticker'' @ ext)) \<and>
   (e \<noteq> [] \<and> (\<forall>c\<in>set e. c \<in> set illegal_chars \<or> py_isspace c) \<longrightarrow>
      sticker_filename i (JStr e) ext = Inr (fmt_03d (i + 1) @ str ''_'' @ ext))"
proof -
  have u: "str ''_sticker'' = 95 # str ''sticker''" "str ''_'' = [95]" by (simp_all add: str_def)
  have "sticker_filename i (JStr []) ext = Inr (fmt_03d (i + 1) @ str ''_sticker'' @ ext)"
    by (simp add: sticker_filename_def sanitize_sticker u)
  moreover have "sticker_filename i (JStr e) ext = Inr (fmt_03d (i + 1) @ str ''_'' @ ext)"
    if "e \<noteq> []" "\<forall>c\<in>set e. c \<in> set illegal_chars \<or> py_isspace c"
    using that by (simp add: sticker_filename_def sanitize_removed u)
  ultimately show ?thesis by auto
qed

theorem sticker_filename_placeholder_witness:
  "sticker_filename 0 (JStr []) (str ''.webp'') = Inr (str ''001_sticker.webp'') \<and>
   sticker_filename 6 (JStr (str ''?*'')) (str ''.webp'') = Inr (str ''007_.webp'')"
proof -
  have a: "map_of [(str ''file_id'', JStr (str ''a3''))] (str ''emoji'') = None" by code_simp
  have b: "str ''?*'' \<noteq> [] \<and> (\<forall>c\<in>set (str ''?*''). c \<in> set illegal_chars \<or> py_isspace c)"
    by code_simp
  have c: "fmt_03d (0 + 1) @ str ''_sticker'' @ str ''.webp'' = str ''001_sticker.webp''" by code_simp
  have d: "fmt_03d (6 + 1) @ str ''_'' @ str ''.webp'' = str ''007_.webp''" by code_simp
  show ?thesis
    using sticker_filename_placeholder[of "[(str ''file_id'', JStr (str ''a3''))]" 0 "str ''.webp''" "[]"]
      sticker_filename_placeholder[of "[]" 6 "str ''.webp''" "str ''?*''"]
      a b c d by simp
qed

end
